theory Spec2Isabelle
  imports Main
begin

section \<open>The flyout widget of ltd-flyout.js\<close>

text \<open>
  The script builds a floating language and version selector. Its logic has three parts:
  \<^item> \<open>getTargetUrl\<close> rewrites the path of the current page for a selected language
    or version, probes the rewritten address with a HEAD request and falls back to an
    index page beside the script;
  \<^item> \<open>createFlyout\<close> renders the option and link rows from the configuration lists;
  \<^item> \<open>createFlyout\<close> then installs three click handlers that toggle marker classes on
    the label, the header, the content panel and the dividers.

  The two copies of the script in the repository differ in their style rules only
  (the second one qualifies every rule with \<open>!important\<close>), so one model covers both.
  JavaScript strings are modelled as \<^typ>\<open>string\<close>.
\<close>

subsection \<open>The string methods the script calls\<close>

text \<open>\<open>s.startsWith(p)\<close>.\<close>

definition startsWith :: "string \<Rightarrow> string \<Rightarrow> bool" where
  "startsWith s p = (take (length p) s = p)"

text \<open>\<open>s.indexOf(p)\<close>: the position of the leftmost occurrence, \<open>None\<close> for JavaScript's -1.\<close>

fun indexOf :: "string \<Rightarrow> string \<Rightarrow> nat option" where
  "indexOf [] p = (if p = [] then Some 0 else None)"
| "indexOf (c # s) p =
     (if startsWith (c # s) p then Some 0 else map_option Suc (indexOf s p))"

text \<open>
  \<open>s.lastIndexOf(c)\<close> for a one-character search string, with JavaScript's -1 when the
  character does not occur, and \<open>s.substring(0, e)\<close>, which treats a negative end as 0
  and an end beyond the string as its length.
\<close>

fun lastIndexOf :: "string \<Rightarrow> char \<Rightarrow> int" where
  "lastIndexOf [] c = - 1"
| "lastIndexOf (x # xs) c =
     (let r = lastIndexOf xs c
      in if 0 \<le> r then r + 1 else if x = c then 0 else - 1)"

definition substring0 :: "string \<Rightarrow> int \<Rightarrow> string" where
  "substring0 s e = take (nat e) s"

text \<open>
  The replacement text of \<open>String.prototype.replace\<close> is a template: with a string
  pattern there are no capture groups, so the sequences that are expanded are
  \<open>$$\<close> (a dollar sign), \<open>$&\<close> (the matched text), \<open>$`\<close> (the text before the match)
  and \<open>$'\<close> (the text after it); every other character, a dollar sign before a digit
  or \<open><\<close> included, is copied.
\<close>

fun GetSubstitution :: "string \<Rightarrow> string \<Rightarrow> string \<Rightarrow> string \<Rightarrow> string" where
  "GetSubstitution matched pre post [] = []"
| "GetSubstitution matched pre post [c] = [c]"
| "GetSubstitution matched pre post (c # d # t) =
     (if c = CHR ''$'' \<and> d = CHR ''$'' then CHR ''$'' # GetSubstitution matched pre post t
      else if c = CHR ''$'' \<and> d = CHR ''&'' then matched @ GetSubstitution matched pre post t
      else if c = CHR ''$'' \<and> d = CHR 0x60 then pre @ GetSubstitution matched pre post t
      else if c = CHR ''$'' \<and> d = CHR 0x27 then post @ GetSubstitution matched pre post t
      else c # GetSubstitution matched pre post (d # t))"

text \<open>
  \<open>s.replace(p, t)\<close> with a string pattern: only the leftmost occurrence of \<open>p\<close> is
  replaced, by the expansion of the template \<open>t\<close>; without an occurrence the string
  is returned as it is.
\<close>

definition replace :: "string \<Rightarrow> string \<Rightarrow> string \<Rightarrow> string" where
  "replace s p t =
     (case indexOf s p of
        None \<Rightarrow> s
      | Some i \<Rightarrow>
          take i s @ GetSubstitution p (take i s) (drop (i + length p) s) t
            @ drop (i + length p) s)"

text \<open>A template without any of the four expanded sequences.\<close>

fun literal_template :: "string \<Rightarrow> bool" where
  "literal_template (c # d # t) =
     (\<not> (c = CHR ''$'' \<and> (d = CHR ''$'' \<or> d = CHR ''&'' \<or> d = CHR 0x60 \<or> d = CHR 0x27))
      \<and> literal_template (d # t))"
| "literal_template t = True"

subsection \<open>The page the script runs in\<close>

text \<open>
  The constants the script reads once when it is loaded: the location of the window,
  the current codes of \<open>current.js\<close>, the lists of \<open>config.js\<close> and the address of the
  script itself.
\<close>

record page =
  href :: string
  pathname :: string
  origin :: string
  CURRENT_LANGUAGE :: string
  CURRENT_VERSION :: string
  CONFIG_LANGUAGES :: "(string \<times> string) list"
  CONFIG_VERSIONS :: "(string \<times> string) list"
  CONFIG_PROJECTS :: "(string \<times> string) list"
  FLYOUT_JS_FILE :: string

definition is_file_uri :: "string \<Rightarrow> bool" where
  "is_file_uri uri = startsWith uri ''file:/''"

definition IS_LOCAL :: "page \<Rightarrow> bool" where
  "IS_LOCAL pg = is_file_uri (href pg)"

definition FLYOUT_JS_DIR :: "page \<Rightarrow> string" where
  "FLYOUT_JS_DIR pg = substring0 (FLYOUT_JS_FILE pg) (lastIndexOf (FLYOUT_JS_FILE pg) CHR ''/'')"

definition SERVER_ROOT :: "page \<Rightarrow> string" where
  "SERVER_ROOT pg = origin pg"

subsection \<open>getTargetUrl\<close>

text \<open>
  The only request the script makes is \<open>fetch(targetUrl, { method: "HEAD" })\<close>. The
  promise is fulfilled with a response, of which the script reads \<open>ok\<close> (the status is
  between 200 and 299), or it is rejected, and then the \<open>await\<close> throws. The network is
  a parameter of the model: a function from the requested address to the outcome.
\<close>

datatype js_error = TypeError string

datatype fetch_outcome = Fulfilled nat | Rejected js_error

definition ok :: "nat \<Rightarrow> bool" where
  "ok status = (200 \<le> status \<and> status \<le> 299)"

text \<open>What the function does besides returning: the request and the two console calls.\<close>

datatype effect = Fetch_HEAD string | Console_warn string | Console_error js_error

text \<open>A block either returns a value from the function or runs to its end.\<close>

datatype 'a flow = Return 'a | Fallthrough

text \<open>
  The first statement: \<open>targetPath\<close> is assigned in the two branches of the
  \<open>if\<close>/\<open>else if\<close> only, and stays \<open>undefined\<close> (here \<open>None\<close>) for any other type.
\<close>

definition targetPath :: "page \<Rightarrow> string \<Rightarrow> string \<Rightarrow> string option" where
  "targetPath pg type selectedValue =
     (if type = ''language'' then
        Some (replace (pathname pg) (''/'' @ CURRENT_LANGUAGE pg @ ''/'') (''/'' @ selectedValue @ ''/''))
      else if type = ''version'' then
        Some (replace (pathname pg) (''/'' @ CURRENT_VERSION pg @ ''/'') (''/'' @ selectedValue @ ''/''))
      else None)"

text \<open>A template literal prints \<open>undefined\<close> as the text "undefined".\<close>

definition interpolate :: "string option \<Rightarrow> string" where
  "interpolate v = (case v of None \<Rightarrow> ''undefined'' | Some s \<Rightarrow> s)"

definition targetUrl :: "page \<Rightarrow> string \<Rightarrow> string \<Rightarrow> string" where
  "targetUrl pg type selectedValue =
     (if IS_LOCAL pg then ''file://'' @ interpolate (targetPath pg type selectedValue)
      else SERVER_ROOT pg @ interpolate (targetPath pg type selectedValue))"

definition fallbackUrl :: "page \<Rightarrow> string \<Rightarrow> string \<Rightarrow> string" where
  "fallbackUrl pg type selectedValue =
     FLYOUT_JS_DIR pg @ ''/''
       @ (if type = ''language'' then selectedValue else CURRENT_LANGUAGE pg) @ ''/''
       @ (if type = ''version'' then selectedValue else CURRENT_VERSION pg) @ ''/index.html''"

text \<open>
  The body of the \<open>try\<close> block. A rejected request is an exception (\<open>Inl\<close>) thrown
  at the \<open>await\<close>; a fulfilled one returns the address when the response is ok, and
  otherwise warns and leaves the block.
\<close>

definition try_block :: "(string \<Rightarrow> fetch_outcome) \<Rightarrow> string \<Rightarrow> effect list \<times> (js_error + string flow)" where
  "try_block fetch url =
     (case fetch url of
        Rejected e \<Rightarrow> ([Fetch_HEAD url], Inl e)
      | Fulfilled status \<Rightarrow>
          (if ok status then ([Fetch_HEAD url], Inr (Return url))
           else ([Fetch_HEAD url, Console_warn url], Inr Fallthrough)))"

text \<open>The \<open>catch\<close> clause logs the error and leaves the statement.\<close>

definition catch_block :: "js_error \<Rightarrow> effect list \<times> (js_error + string flow)" where
  "catch_block e = ([Console_error e], Inr Fallthrough)"

definition try_catch ::
  "effect list \<times> (js_error + 'a flow) \<Rightarrow> (js_error \<Rightarrow> effect list \<times> (js_error + 'a flow))
     \<Rightarrow> effect list \<times> (js_error + 'a flow)" where
  "try_catch body handler =
     (case body of
        (es, Inl e) \<Rightarrow> (case handler e of (es', r) \<Rightarrow> (es @ es', r))
      | (es, Inr f) \<Rightarrow> (es, Inr f))"

text \<open>
  The function: the effects in the order they happen, and either the exception that
  reaches the caller (\<open>Inl\<close>) or the address the promise resolves to (\<open>Inr\<close>).
\<close>

definition getTargetUrl ::
  "page \<Rightarrow> (string \<Rightarrow> fetch_outcome) \<Rightarrow> string \<Rightarrow> string \<Rightarrow> effect list \<times> (js_error + string)" where
  "getTargetUrl pg fetch type selectedValue =
     (if IS_LOCAL pg then ([], Inr (targetUrl pg type selectedValue))
      else
        (case try_catch (try_block fetch (targetUrl pg type selectedValue)) catch_block of
           (es, Inl e) \<Rightarrow> (es, Inl e)
         | (es, Inr (Return url)) \<Rightarrow> (es, Inr url)
         | (es, Inr Fallthrough) \<Rightarrow> (es, Inr (fallbackUrl pg type selectedValue))))"

text \<open>
  The shape the specification gives for the fallback address:
  \<open><asset-dir>/<language>/<version>/index.html\<close>.
\<close>

definition fallback_shape :: "string \<Rightarrow> string \<Rightarrow> string \<Rightarrow> string" where
  "fallback_shape dir language version =
     dir @ ''/'' @ language @ ''/'' @ version @ ''/index.html''"

subsection \<open>createFlyout: the rendered rows\<close>

text \<open>
  The markup is assembled from template strings. The three lists of rows, as the
  source writes them:
\<close>

definition languageOptions :: "page \<Rightarrow> string" where
  \<open>languageOptions pg =
     concat (map (\<lambda>(code, name).
         ''<option value="'' @ code @ ''" ''
           @ (if code = CURRENT_LANGUAGE pg then ''selected'' else []) @ ''>''
           @ code @ '' : '' @ name @ ''</option>'')
       (filter (\<lambda>lang. fst lang \<noteq> ''newline'') (CONFIG_LANGUAGES pg)))\<close>

definition versionOptions :: "page \<Rightarrow> string" where
  \<open>versionOptions pg =
     concat (map (\<lambda>(code, name).
         ''<option value="'' @ code @ ''" ''
           @ (if code = CURRENT_VERSION pg then ''selected'' else []) @ ''>''
           @ code @ '' : '' @ name @ ''</option>'')
       (filter (\<lambda>version. fst version \<noteq> ''newline'') (CONFIG_VERSIONS pg)))\<close>

definition sortedProjects :: "page \<Rightarrow> string" where
  \<open>sortedProjects pg =
     concat (map (\<lambda>(project, link).
         if project = ''newline'' then ''<dd class="newline"></dd>''
         else ''<dd class="options"><a href="'' @ link @ ''">'' @ project @ ''</a></dd>'')
       (CONFIG_PROJECTS pg))\<close>

text \<open>
  The same rows as elements, before they are printed: an option of a select control
  with its value, its \<open>selected\<close> attribute and its text; a link row with its address
  and label; and the empty row that only breaks the line.
\<close>

datatype row =
    OptionRow (option_value: string) (option_selected: bool) (option_text: string)
  | LinkRow (link_href: string) (link_label: string)
  | NewlineRow

fun html :: "row \<Rightarrow> string" where
  \<open>html (OptionRow code sel txt) =
     ''<option value="'' @ code @ ''" '' @ (if sel then ''selected'' else []) @ ''>''
       @ txt @ ''</option>''\<close>
| \<open>html (LinkRow link project) =
     ''<dd class="options"><a href="'' @ link @ ''">'' @ project @ ''</a></dd>''\<close>
| \<open>html NewlineRow = ''<dd class="newline"></dd>''\<close>

definition option_row :: "string \<Rightarrow> string \<times> string \<Rightarrow> row" where
  "option_row current entry =
     (case entry of (code, name) \<Rightarrow> OptionRow code (code = current) (code @ '' : '' @ name))"

definition language_rows :: "page \<Rightarrow> row list" where
  "language_rows pg =
     map (option_row (CURRENT_LANGUAGE pg))
       (filter (\<lambda>lang. fst lang \<noteq> ''newline'') (CONFIG_LANGUAGES pg))"

definition version_rows :: "page \<Rightarrow> row list" where
  "version_rows pg =
     map (option_row (CURRENT_VERSION pg))
       (filter (\<lambda>version. fst version \<noteq> ''newline'') (CONFIG_VERSIONS pg))"

definition project_row :: "string \<times> string \<Rightarrow> row" where
  "project_row entry =
     (case entry of (project, link) \<Rightarrow>
        if project = ''newline'' then NewlineRow else LinkRow link project)"

definition project_rows :: "page \<Rightarrow> row list" where
  "project_rows pg = map project_row (CONFIG_PROJECTS pg)"

text \<open>What a reader can pick or follow: the options and the links.\<close>

fun is_option :: "row \<Rightarrow> bool" where
  "is_option (OptionRow code sel txt) = True"
| "is_option r = False"

fun is_link :: "row \<Rightarrow> bool" where
  "is_link (LinkRow link project) = True"
| "is_link r = False"

subsection \<open>createFlyout: the click handlers\<close>

text \<open>
  The handlers read and write four class lists. The state of the widget is which of
  the marker classes are present: \<open>hidden\<close> on the label, \<open>ltd-icon-only\<close> on the header,
  \<open>ltd-flyout-closed\<close> on the content panel and on each element that
  \<open>querySelectorAll(".ltd-flyout-divider")\<close> found.
\<close>

record widget =
  label_hidden :: bool
  header_icon_only :: bool
  content_closed :: bool
  dividers_closed :: "bool list"

text \<open>
  The inserted markup has one divider; it and the content panel carry
  \<open>ltd-flyout-closed\<close>, the label and the header carry no marker.
\<close>

definition initial :: widget where
  "initial = \<lparr> label_hidden = False, header_icon_only = False,
               content_closed = True, dividers_closed = [True] \<rparr>"

text \<open>
  The listener on the label: \<open>classList.toggle(c)\<close> flips the class and returns whether
  it is now present; \<open>classList.toggle(c, force)\<close> sets it to \<open>force\<close>.
\<close>

definition label_click :: "widget \<Rightarrow> widget" where
  "label_click w =
     (let isHidden = \<not> content_closed w
      in w\<lparr> content_closed := isHidden,
             dividers_closed := map (\<lambda>d. isHidden) (dividers_closed w) \<rparr>)"

text \<open>The listener on the icon.\<close>

definition icon_click :: "widget \<Rightarrow> widget" where
  "icon_click w =
     (let labelHidden = \<not> label_hidden w;
          w1 = w\<lparr> label_hidden := labelHidden, header_icon_only := labelHidden \<rparr>
      in if labelHidden
         then w1\<lparr> content_closed := True,
                  dividers_closed := map (\<lambda>d. True) (dividers_closed w1) \<rparr>
         else w1)"

text \<open>
  The listener on the document, with the value of \<open>flyout.contains(event.target)\<close>.
\<close>

definition document_click :: "bool \<Rightarrow> widget \<Rightarrow> widget" where
  "document_click inside w =
     (if \<not> inside
      then w\<lparr> content_closed := True,
              dividers_closed := map (\<lambda>d. True) (dividers_closed w) \<rparr>
      else w)"

text \<open>
  Where a click can land. The listeners on the label and on the icon call
  \<open>stopPropagation\<close>, so the listener on the document runs for the other two only.
\<close>

datatype click_target = OnLabel | OnIcon | ElsewhereInFlyout | OutsideFlyout

fun click :: "click_target \<Rightarrow> widget \<Rightarrow> widget" where
  "click OnLabel w = label_click w"
| "click OnIcon w = icon_click w"
| "click ElsewhereInFlyout w = document_click True w"
| "click OutsideFlyout w = document_click False w"

text \<open>The states the widget can be in: the initial one and those that clicks lead to.\<close>

inductive reachable :: "widget \<Rightarrow> bool" where
  reachable_initial: "reachable initial"
| reachable_click: "reachable w \<Longrightarrow> reachable (click t w)"

text \<open>The two flags of the specification.\<close>

definition contentExpanded :: "widget \<Rightarrow> bool" where
  "contentExpanded w = (\<not> content_closed w)"

definition labelVisible :: "widget \<Rightarrow> bool" where
  "labelVisible w = (\<not> label_hidden w)"

subsection \<open>Example pages\<close>

text \<open>
  A served page and the same page opened from the file system, with the version and
  project lists of \<open>ltd-config.js\<close> and a language list that has a line break in it.
\<close>

definition example_page :: page where
  "example_page = \<lparr>
     href = ''https://docs.example.org/en-us/latest/guide.html'',
     pathname = ''/en-us/latest/guide.html'',
     origin = ''https://docs.example.org'',
     CURRENT_LANGUAGE = ''en-us'',
     CURRENT_VERSION = ''latest'',
     CONFIG_LANGUAGES = [(''en-us'', ''English''), (''newline'', []), (''zh-cn'', ''Chinese'')],
     CONFIG_VERSIONS = [(''master'', ''Development''), (''latest'', ''Latest Release''),
       (''3.9'', ''Release 3.9''), (''3.9'', ''Release 3.9''), (''3.8'', ''Release 3.8'')],
     CONFIG_PROJECTS = [(''Index'', ''https://projects.localizethedocs.org''),
       (''newline'', []),
       (''GitHub'', ''https://github.com/localizethedocs/demo-docs-l10n'')],
     FLYOUT_JS_FILE = ''https://docs.example.org/flyout/ltd-flyout.js'' \<rparr>"

definition local_page :: page where
  "local_page = example_page \<lparr>
     href := ''file:///srv/docs/en-us/latest/guide.html'',
     pathname := ''/srv/docs/en-us/latest/guide.html'',
     origin := ''null'',
     FLYOUT_JS_FILE := ''file:///srv/docs/flyout/ltd-flyout.js'' \<rparr>"

text \<open>A page whose path has neither code in it.\<close>

definition plain_page :: page where
  "plain_page = example_page \<lparr>
     href := ''https://docs.example.org/about.html'',
     pathname := ''/about.html'' \<rparr>"

text \<open>
  A page whose language code and version code are the same word, so that the path has
  the same segment twice.
\<close>

definition twin_page :: page where
  "twin_page = example_page \<lparr>
     href := ''https://docs.example.org/latest/latest/guide.html'',
     pathname := ''/latest/latest/guide.html'',
     CURRENT_LANGUAGE := ''latest'' \<rparr>"

text \<open>Three networks: every address exists, none does, and none can be reached.\<close>

definition found :: "string \<Rightarrow> fetch_outcome" where
  "found url = Fulfilled 200"

definition not_found :: "string \<Rightarrow> fetch_outcome" where
  "not_found url = Fulfilled 404"

definition offline :: "string \<Rightarrow> fetch_outcome" where
  "offline url = Rejected (TypeError ''Failed to fetch'')"

section \<open>Properties of the string methods\<close>

lemma startsWith_iff: "startsWith s p \<longleftrightarrow> (\<exists>b. s = p @ b)"
  unfolding startsWith_def
  by (metis append_eq_conv_conj append_take_drop_id)

text \<open>A position that \<open>indexOf\<close> returns is an occurrence, and no occurrence is before it.\<close>

lemma indexOf_Some_decomp:
  "indexOf s p = Some i \<Longrightarrow> s = take i s @ p @ drop (i + length p) s"
proof (induction s arbitrary: i)
  case Nil
  then show ?case by (simp split: if_splits)
next
  case (Cons c s)
  show ?case
  proof (cases "startsWith (c # s) p")
    case True
    with Cons.prems have "i = 0" by simp
    moreover from True have "c # s = p @ drop (length p) (c # s)"
      unfolding startsWith_def by (metis append_take_drop_id)
    ultimately show ?thesis by simp
  next
    case False
    with Cons.prems obtain j where j: "indexOf s p = Some j" "i = Suc j" by auto
    from Cons.IH [OF j(1)] j(2) show ?thesis by simp
  qed
qed

lemma indexOf_Some_least:
  "indexOf s p = Some i \<Longrightarrow> s = a @ p @ b \<Longrightarrow> i \<le> length a"
proof (induction s arbitrary: i a)
  case Nil
  then show ?case by (simp split: if_splits)
next
  case (Cons c s)
  show ?case
  proof (cases "startsWith (c # s) p")
    case True
    with Cons.prems(1) show ?thesis by simp
  next
    case False
    with Cons.prems(1) obtain j where j: "indexOf s p = Some j" "i = Suc j" by auto
    from False Cons.prems(2) have "a \<noteq> []" by (auto simp: startsWith_iff)
    then obtain a' where a': "a = c # a'" "s = a' @ p @ b"
      using Cons.prems(2) by (cases a) auto
    from Cons.IH [OF j(1) a'(2)] j(2) a'(1) show ?thesis by simp
  qed
qed

lemma indexOf_None_iff: "indexOf s p = None \<longleftrightarrow> \<not> (\<exists>a b. s = a @ p @ b)"
proof (induction s)
  case Nil
  then show ?case by auto
next
  case (Cons c s)
  show ?case
  proof (cases "startsWith (c # s) p")
    case True
    then obtain b where "c # s = [] @ p @ b" by (auto simp: startsWith_iff)
    with True show ?thesis by (metis indexOf.simps(2) option.distinct(1))
  next
    case False
    have "(\<exists>a b. c # s = a @ p @ b) \<longleftrightarrow> (\<exists>a b. s = a @ p @ b)"
    proof
      assume "\<exists>a b. c # s = a @ p @ b"
      then obtain a b where ab: "c # s = a @ p @ b" by blast
      with False have "a \<noteq> []" by (auto simp: startsWith_iff)
      with ab show "\<exists>a b. s = a @ p @ b" by (cases a) auto
    next
      assume "\<exists>a b. s = a @ p @ b"
      then obtain a b where "s = a @ p @ b" by blast
      then have "c # s = (c # a) @ p @ b" by simp
      then show "\<exists>a b. c # s = a @ p @ b" by blast
    qed
    with False Cons.IH show ?thesis by simp
  qed
qed

text \<open>A template without expanded sequences is inserted as it is.\<close>

lemma GetSubstitution_literal:
  "literal_template t \<Longrightarrow> GetSubstitution m a b t = t"
  by (induction m a b t rule: GetSubstitution.induct) auto

lemma literal_template_Cons:
  "c \<noteq> CHR ''$'' \<Longrightarrow> literal_template t \<Longrightarrow> literal_template (c # t)"
  by (cases t) auto

lemma literal_template_snoc:
  "literal_template t \<Longrightarrow> c \<noteq> CHR ''$'' \<Longrightarrow> c \<noteq> CHR ''&'' \<Longrightarrow> c \<noteq> CHR 0x60 \<Longrightarrow> c \<noteq> CHR 0x27
     \<Longrightarrow> literal_template (t @ [c])"
  by (induction t rule: literal_template.induct) auto

lemma literal_template_wrap:
  "literal_template v \<Longrightarrow> literal_template (''/'' @ v @ ''/'')"
  using literal_template_Cons [of "CHR ''/''" "v @ ''/''"] literal_template_snoc [of v "CHR ''/''"]
  by simp

lemma replace_first:
  assumes "literal_template t" and "s = a @ p @ b"
  shows "\<exists>pre post. s = pre @ p @ post \<and> length pre \<le> length a \<and> replace s p t = pre @ t @ post"
proof -
  from assms(2) have "indexOf s p \<noteq> None" by (auto simp: indexOf_None_iff)
  then obtain i where i: "indexOf s p = Some i" by auto
  let ?pre = "take i s" and ?post = "drop (i + length p) s"
  have "s = ?pre @ p @ ?post" by (rule indexOf_Some_decomp [OF i])
  moreover have "i \<le> length a" by (rule indexOf_Some_least [OF i assms(2)])
  moreover have "i \<le> length s" using assms(2) \<open>i \<le> length a\<close> by simp
  moreover have "replace s p t = ?pre @ t @ ?post"
    by (simp add: replace_def i GetSubstitution_literal [OF assms(1)])
  ultimately show ?thesis by (metis length_take min.absorb2)
qed

lemma replace_absent:
  assumes "\<not> (\<exists>a b. s = a @ p @ b)"
  shows "replace s p t = s"
proof -
  from assms have "indexOf s p = None" using indexOf_None_iff [of s p] by blast
  then show ?thesis by (simp add: replace_def)
qed

section \<open>Properties of getTargetUrl\<close>

text \<open>The four ways through the function.\<close>

lemma getTargetUrl_local:
  "IS_LOCAL pg \<Longrightarrow> getTargetUrl pg fetch type v = ([], Inr (targetUrl pg type v))"
  by (simp add: getTargetUrl_def)

lemma getTargetUrl_ok:
  "\<not> IS_LOCAL pg \<Longrightarrow> fetch (targetUrl pg type v) = Fulfilled status \<Longrightarrow> ok status
     \<Longrightarrow> getTargetUrl pg fetch type v
         = ([Fetch_HEAD (targetUrl pg type v)], Inr (targetUrl pg type v))"
  by (simp add: getTargetUrl_def try_block_def try_catch_def)

lemma getTargetUrl_not_ok:
  "\<not> IS_LOCAL pg \<Longrightarrow> fetch (targetUrl pg type v) = Fulfilled status \<Longrightarrow> \<not> ok status
     \<Longrightarrow> getTargetUrl pg fetch type v
         = ([Fetch_HEAD (targetUrl pg type v), Console_warn (targetUrl pg type v)],
            Inr (fallbackUrl pg type v))"
  by (simp add: getTargetUrl_def try_block_def try_catch_def)

lemma getTargetUrl_rejected:
  "\<not> IS_LOCAL pg \<Longrightarrow> fetch (targetUrl pg type v) = Rejected e
     \<Longrightarrow> getTargetUrl pg fetch type v
         = ([Fetch_HEAD (targetUrl pg type v), Console_error e], Inr (fallbackUrl pg type v))"
  by (simp add: getTargetUrl_def try_block_def try_catch_def catch_block_def)

lemma getTargetUrl_cases:
  "snd (getTargetUrl pg fetch type v) = Inr (targetUrl pg type v)
   \<or> snd (getTargetUrl pg fetch type v) = Inr (fallbackUrl pg type v)"
proof (cases "IS_LOCAL pg")
  case True
  then show ?thesis by (simp add: getTargetUrl_local)
next
  case False
  show ?thesis
  proof (cases "fetch (targetUrl pg type v)")
    case (Fulfilled status)
    with False show ?thesis
      by (cases "ok status") (simp_all add: getTargetUrl_ok getTargetUrl_not_ok)
  next
    case (Rejected e)
    with False show ?thesis by (simp add: getTargetUrl_rejected)
  qed
qed

lemma targetUrl_served:
  "\<not> IS_LOCAL pg \<Longrightarrow> targetPath pg type v = Some p \<Longrightarrow> targetUrl pg type v = origin pg @ p"
  by (simp add: targetUrl_def SERVER_ROOT_def interpolate_def)

text \<open>
  What the substitution does in general. For a selected code with none of the sequences
  \<open>$$\<close>, \<open>$&\<close>, \<open>$`\<close>, \<open>$'\<close> in it, and a path that contains the current code of the axis
  between two separators, the call rewrites the leftmost occurrence of that segment: the
  occurrence it rewrites starts no later than any occurrence \<open>a\<close> \<open>/current/\<close> \<open>b\<close>.
\<close>

lemma targetPath_replaces_leftmost:
  assumes "type = ''language'' \<and> current = CURRENT_LANGUAGE pg
         \<or> type = ''version'' \<and> current = CURRENT_VERSION pg"
    and "literal_template selectedValue"
    and "pathname pg = a @ ''/'' @ current @ ''/'' @ b"
  shows "\<exists>pre post.
           pathname pg = pre @ ''/'' @ current @ ''/'' @ post
         \<and> length pre \<le> length a
         \<and> targetPath pg type selectedValue = Some (pre @ ''/'' @ selectedValue @ ''/'' @ post)"
proof -
  let ?p = "''/'' @ current @ ''/''" and ?t = "''/'' @ selectedValue @ ''/''"
  have lit: "literal_template ?t" by (rule literal_template_wrap [OF assms(2)])
  from assms(3) have "pathname pg = a @ ?p @ b" by simp
  from replace_first [OF lit this]
  obtain pre post where pp: "pathname pg = pre @ ?p @ post" "length pre \<le> length a"
    "replace (pathname pg) ?p ?t = pre @ ?t @ post" by blast
  from assms(1) have "targetPath pg type selectedValue = Some (replace (pathname pg) ?p ?t)"
    by (auto simp: targetPath_def)
  with pp show ?thesis by auto
qed

text \<open>
  C1. The claim says that the segment of the requested axis, and nothing else, is
  replaced by the selected code, also when the segment occurs more than once and when
  the language code equals the version code. The substitution step does not do that on
  two inputs, and the fallback address of the same function does it on both.
  \<^item> On the page \<open>/latest/latest/guide.html\<close>, whose language code and version code are
    both \<open>latest\<close>, selecting the version 3.9 rewrites the first segment, the one of the
    language: the path is \<open>/3.9/latest/guide.html\<close>, the same as for the selected language
    3.9, and not \<open>/latest/3.9/guide.html\<close>. The fallback address has \<open>latest/3.9\<close>.
  \<^item> On the page \<open>/en-us/latest/guide.html\<close>, selecting the language \<open>$&\<close> inserts the
    matched segment instead of the code: the path is \<open>//en-us//latest/guide.html\<close>, and
    not \<open>/$&/latest/guide.html\<close>. The fallback address has \<open>$&/latest\<close>.
\<close>

theorem path_substitution_rewrites_other_segment:
  "pathname twin_page
     = ''/'' @ CURRENT_LANGUAGE twin_page @ ''/'' @ CURRENT_VERSION twin_page @ ''/'' @ ''guide.html''
   \<and> targetPath twin_page ''version'' ''3.9'' = Some ''/3.9/latest/guide.html''
   \<and> targetPath twin_page ''version'' ''3.9''
       \<noteq> Some (''/'' @ CURRENT_LANGUAGE twin_page @ ''/'' @ ''3.9'' @ ''/'' @ ''guide.html'')
   \<and> targetPath twin_page ''language'' ''3.9'' = Some ''/3.9/latest/guide.html''
   \<and> fallbackUrl twin_page ''version'' ''3.9''
       = ''https://docs.example.org/flyout/latest/3.9/index.html''
   \<and> pathname example_page
       = ''/'' @ CURRENT_LANGUAGE example_page @ ''/'' @ CURRENT_VERSION example_page @ ''/'' @ ''guide.html''
   \<and> targetPath example_page ''language'' ''$&'' = Some ''//en-us//latest/guide.html''
   \<and> targetPath example_page ''language'' ''$&''
       \<noteq> Some (''/'' @ ''$&'' @ ''/'' @ CURRENT_VERSION example_page @ ''/'' @ ''guide.html'')
   \<and> fallbackUrl example_page ''language'' ''$&''
       = ''https://docs.example.org/flyout/$&/latest/index.html''"
  by (simp add: targetPath_def fallbackUrl_def FLYOUT_JS_DIR_def substring0_def
      twin_page_def example_page_def replace_def startsWith_def)

text \<open>
  C2. On a served page, for the language and the version axis: the function probes the
  origin followed by the substituted path. When the response has a status from 200 to
  299 the function returns the probed address. When the response has any other status,
  and when the request is rejected, it returns the fallback address
  \<open><asset-dir>/<language>/<version>/index.html\<close>, with the selected code in the place of
  the requested axis and the current code of the other axis in the other place.
\<close>

theorem served_probe_or_fallback:
  assumes "\<not> IS_LOCAL pg"
    and "type = ''language'' \<and> fb = fallback_shape (FLYOUT_JS_DIR pg) v (CURRENT_VERSION pg)
       \<or> type = ''version'' \<and> fb = fallback_shape (FLYOUT_JS_DIR pg) (CURRENT_LANGUAGE pg) v"
    and "targetPath pg type v = Some p"
  shows "case fetch (origin pg @ p) of
           Fulfilled status \<Rightarrow>
             if 200 \<le> status \<and> status \<le> 299
             then getTargetUrl pg fetch type v = ([Fetch_HEAD (origin pg @ p)], Inr (origin pg @ p))
             else getTargetUrl pg fetch type v
                    = ([Fetch_HEAD (origin pg @ p), Console_warn (origin pg @ p)], Inr fb)
         | Rejected e \<Rightarrow>
             getTargetUrl pg fetch type v
               = ([Fetch_HEAD (origin pg @ p), Console_error e], Inr fb)"
proof -
  have u: "targetUrl pg type v = origin pg @ p"
    by (rule targetUrl_served [OF assms(1) assms(3)])
  from assms(2) have fb: "fallbackUrl pg type v = fb"
    by (auto simp: fallbackUrl_def fallback_shape_def)
  show ?thesis
  proof (cases "fetch (origin pg @ p)")
    case (Fulfilled status)
    then have f: "fetch (targetUrl pg type v) = Fulfilled status" by (simp add: u)
    show ?thesis
    proof (cases "ok status")
      case True
      from getTargetUrl_ok [of pg fetch type v status, OF assms(1) f True] True Fulfilled
      show ?thesis by (simp add: u ok_def)
    next
      case False
      from getTargetUrl_not_ok [of pg fetch type v status, OF assms(1) f False] False Fulfilled
      show ?thesis by (simp add: u fb ok_def)
    qed
  next
    case (Rejected e)
    then have f: "fetch (targetUrl pg type v) = Rejected e" by (simp add: u)
    from getTargetUrl_rejected [of pg fetch type v e, OF assms(1) f] Rejected
    show ?thesis by (simp add: u fb)
  qed
qed

text \<open>
  The example page with the version 3.9 selected, on the three networks: the probed
  address, and twice \<open><asset-dir>/en-us/3.9/index.html\<close>.
\<close>

theorem served_probe_or_fallback_witness:
  "\<not> IS_LOCAL example_page
   \<and> targetPath example_page ''version'' ''3.9'' = Some ''/en-us/3.9/guide.html''
   \<and> getTargetUrl example_page found ''version'' ''3.9''
       = ([Fetch_HEAD ''https://docs.example.org/en-us/3.9/guide.html''],
          Inr ''https://docs.example.org/en-us/3.9/guide.html'')
   \<and> getTargetUrl example_page not_found ''version'' ''3.9''
       = ([Fetch_HEAD ''https://docs.example.org/en-us/3.9/guide.html'',
           Console_warn ''https://docs.example.org/en-us/3.9/guide.html''],
          Inr ''https://docs.example.org/flyout/en-us/3.9/index.html'')
   \<and> getTargetUrl example_page offline ''version'' ''3.9''
       = ([Fetch_HEAD ''https://docs.example.org/en-us/3.9/guide.html'',
           Console_error (TypeError ''Failed to fetch'')],
          Inr ''https://docs.example.org/flyout/en-us/3.9/index.html'')"
proof -
  have h1: "\<not> IS_LOCAL example_page"
    by (simp add: IS_LOCAL_def is_file_uri_def startsWith_def example_page_def)
  have h2: "''version'' = ''language''
              \<and> ''https://docs.example.org/flyout/en-us/3.9/index.html''
                  = fallback_shape (FLYOUT_JS_DIR example_page) ''3.9'' (CURRENT_VERSION example_page)
          \<or> ''version'' = ''version''
              \<and> ''https://docs.example.org/flyout/en-us/3.9/index.html''
                  = fallback_shape (FLYOUT_JS_DIR example_page) (CURRENT_LANGUAGE example_page) ''3.9''"
    by (simp add: fallback_shape_def FLYOUT_JS_DIR_def substring0_def example_page_def)
  have h3: "targetPath example_page ''version'' ''3.9'' = Some ''/en-us/3.9/guide.html''"
    by (simp add: targetPath_def example_page_def replace_def startsWith_def)
  have o: "origin example_page = ''https://docs.example.org''"
    by (simp add: example_page_def)
  from served_probe_or_fallback [of example_page _ _ _ _ found, OF h1 h2 h3]
    served_probe_or_fallback [of example_page _ _ _ _ not_found, OF h1 h2 h3]
    served_probe_or_fallback [of example_page _ _ _ _ offline, OF h1 h2 h3]
    h1 h3
  show ?thesis by (simp add: o found_def not_found_def offline_def)
qed

text \<open>
  C3. On a page opened from the file system, for the language and the version axis and
  every selected code: the function makes no request and logs nothing (its list of
  effects is empty, whatever the network would answer), and it returns \<open>file://\<close>
  followed by the substituted path.
\<close>

theorem local_context_returns_file_url:
  assumes "IS_LOCAL pg"
  shows "getTargetUrl pg fetch ''language'' v
           = ([], Inr (''file://'' @ replace (pathname pg)
                 (''/'' @ CURRENT_LANGUAGE pg @ ''/'') (''/'' @ v @ ''/'')))
       \<and> getTargetUrl pg fetch ''version'' v
           = ([], Inr (''file://'' @ replace (pathname pg)
                 (''/'' @ CURRENT_VERSION pg @ ''/'') (''/'' @ v @ ''/'')))"
  using assms by (simp add: getTargetUrl_local targetUrl_def targetPath_def interpolate_def)

theorem local_context_returns_file_url_witness:
  "IS_LOCAL local_page
   \<and> getTargetUrl local_page offline ''language'' ''zh-cn''
       = ([], Inr ''file:///srv/docs/zh-cn/latest/guide.html'')
   \<and> getTargetUrl local_page found ''version'' ''3.9''
       = ([], Inr ''file:///srv/docs/en-us/3.9/guide.html'')"
proof -
  have h: "IS_LOCAL local_page"
    by (simp add: IS_LOCAL_def is_file_uri_def startsWith_def local_page_def)
  have p: "pathname local_page = ''/srv/docs/en-us/latest/guide.html''"
    "CURRENT_LANGUAGE local_page = ''en-us''" "CURRENT_VERSION local_page = ''latest''"
    by (simp_all add: local_page_def example_page_def)
  from local_context_returns_file_url [OF h, of offline "''zh-cn''"]
    local_context_returns_file_url [OF h, of found "''3.9''"] h
  show ?thesis by (simp add: p replace_def startsWith_def)
qed

text \<open>
  C4. For every type and selected code, on every page and network, the function ends
  with an address and passes no exception to its caller: the exception that a rejected
  request throws at the \<open>await\<close> is caught, logged, and answered with the fallback
  address. (Each request is taken to settle, fulfilled or rejected; the function has no
  loop.)
\<close>

theorem getTargetUrl_always_returns_url:
  "(\<exists>url. snd (getTargetUrl pg fetch type v) = Inr url)
   \<and> (\<not> IS_LOCAL pg \<longrightarrow>
        (\<forall>e. fetch (targetUrl pg type v) = Rejected e \<longrightarrow>
           getTargetUrl pg fetch type v
             = ([Fetch_HEAD (targetUrl pg type v), Console_error e],
                Inr (fallbackUrl pg type v))))"
  using getTargetUrl_cases [of pg fetch type v] getTargetUrl_rejected [of pg fetch type v]
  by auto

theorem getTargetUrl_always_returns_url_witness:
  "\<not> IS_LOCAL example_page
   \<and> offline (targetUrl example_page ''language'' ''zh-cn'') = Rejected (TypeError ''Failed to fetch'')
   \<and> getTargetUrl example_page offline ''language'' ''zh-cn''
       = ([Fetch_HEAD ''https://docs.example.org/zh-cn/latest/guide.html'',
           Console_error (TypeError ''Failed to fetch'')],
          Inr ''https://docs.example.org/flyout/zh-cn/latest/index.html'')"
proof -
  have h1: "\<not> IS_LOCAL example_page"
    by (simp add: IS_LOCAL_def is_file_uri_def startsWith_def example_page_def)
  have h2: "offline (targetUrl example_page ''language'' ''zh-cn'')
              = Rejected (TypeError ''Failed to fetch'')"
    by (simp add: offline_def)
  have p: "targetPath example_page ''language'' ''zh-cn'' = Some ''/zh-cn/latest/guide.html''"
    by (simp add: targetPath_def example_page_def replace_def startsWith_def)
  have o: "origin example_page = ''https://docs.example.org''"
    by (simp add: example_page_def)
  have u: "targetUrl example_page ''language'' ''zh-cn''
             = ''https://docs.example.org/zh-cn/latest/guide.html''"
    using h1 by (simp add: targetUrl_def p interpolate_def SERVER_ROOT_def o)
  have f: "fallbackUrl example_page ''language'' ''zh-cn''
             = ''https://docs.example.org/flyout/zh-cn/latest/index.html''"
    by (simp add: fallbackUrl_def FLYOUT_JS_DIR_def substring0_def example_page_def)
  from getTargetUrl_always_returns_url [of example_page offline "''language''" "''zh-cn''"]
    h1 h2
  show ?thesis by (simp add: u f)
qed

text \<open>
  C5. For the language and the version axis and every selected code: when the path of
  the page does not contain the current code of the axis between two separators, the
  substituted path is the path itself; the address built from it is \<open>file://\<close> or the
  origin followed by the unchanged path; and the function returns an address, not an
  error: on a local page the \<open>file://\<close> address, on a served page the probed address
  when the probe succeeds.
\<close>

theorem substitution_miss_is_noop:
  assumes "type = ''language'' \<and> current = CURRENT_LANGUAGE pg
         \<or> type = ''version'' \<and> current = CURRENT_VERSION pg"
    and "\<not> (\<exists>a b. pathname pg = a @ ''/'' @ current @ ''/'' @ b)"
  shows "targetPath pg type v = Some (pathname pg)
       \<and> targetUrl pg type v
           = (if IS_LOCAL pg then ''file://'' @ pathname pg else origin pg @ pathname pg)
       \<and> (\<exists>url. snd (getTargetUrl pg fetch type v) = Inr url)
       \<and> (IS_LOCAL pg \<longrightarrow> getTargetUrl pg fetch type v = ([], Inr (''file://'' @ pathname pg)))
       \<and> (\<not> IS_LOCAL pg \<longrightarrow>
            (\<forall>status. fetch (origin pg @ pathname pg) = Fulfilled status \<and> ok status \<longrightarrow>
               getTargetUrl pg fetch type v
                 = ([Fetch_HEAD (origin pg @ pathname pg)], Inr (origin pg @ pathname pg))))"
proof -
  from assms(2) have "\<not> (\<exists>a b. pathname pg = a @ (''/'' @ current @ ''/'') @ b)" by simp
  then have r: "replace (pathname pg) (''/'' @ current @ ''/'') t = pathname pg" for t
    by (rule replace_absent)
  from assms(1) have p: "targetPath pg type v = Some (pathname pg)"
    using r [of "''/'' @ v @ ''/''"] by (auto simp: targetPath_def)
  then have u: "targetUrl pg type v
      = (if IS_LOCAL pg then ''file://'' @ pathname pg else origin pg @ pathname pg)"
    by (simp add: targetUrl_def interpolate_def SERVER_ROOT_def)
  have e: "\<exists>url. snd (getTargetUrl pg fetch type v) = Inr url"
    using getTargetUrl_cases [of pg fetch type v] by auto
  have l: "IS_LOCAL pg \<longrightarrow> getTargetUrl pg fetch type v = ([], Inr (''file://'' @ pathname pg))"
    using u by (simp add: getTargetUrl_local)
  have s: "\<not> IS_LOCAL pg \<longrightarrow>
            (\<forall>status. fetch (origin pg @ pathname pg) = Fulfilled status \<and> ok status \<longrightarrow>
               getTargetUrl pg fetch type v
                 = ([Fetch_HEAD (origin pg @ pathname pg)], Inr (origin pg @ pathname pg)))"
    using u getTargetUrl_ok [of pg fetch type v] by auto
  from p u e l s show ?thesis by blast
qed

theorem substitution_miss_is_noop_witness:
  "\<not> (\<exists>a b. pathname plain_page = a @ ''/'' @ ''latest'' @ ''/'' @ b)
   \<and> \<not> IS_LOCAL plain_page
   \<and> targetPath plain_page ''version'' ''3.9'' = Some ''/about.html''
   \<and> getTargetUrl plain_page found ''version'' ''3.9''
       = ([Fetch_HEAD ''https://docs.example.org/about.html''],
          Inr ''https://docs.example.org/about.html'')"
proof -
  have h1: "''version'' = ''language'' \<and> ''latest'' = CURRENT_LANGUAGE plain_page
          \<or> ''version'' = ''version'' \<and> ''latest'' = CURRENT_VERSION plain_page"
    by (simp add: plain_page_def example_page_def)
  have "indexOf (pathname plain_page) (''/'' @ ''latest'' @ ''/'') = None"
    by (simp add: plain_page_def startsWith_def)
  then have "\<not> (\<exists>a b. pathname plain_page = a @ (''/'' @ ''latest'' @ ''/'') @ b)"
    using indexOf_None_iff [of "pathname plain_page" "''/'' @ ''latest'' @ ''/''"] by blast
  then have h2: "\<not> (\<exists>a b. pathname plain_page = a @ ''/'' @ ''latest'' @ ''/'' @ b)"
    by simp
  have h3: "\<not> IS_LOCAL plain_page"
    by (simp add: IS_LOCAL_def is_file_uri_def startsWith_def plain_page_def)
  have o: "origin plain_page = ''https://docs.example.org''" "pathname plain_page = ''/about.html''"
    by (simp_all add: plain_page_def example_page_def)
  have f: "found (origin plain_page @ pathname plain_page) = Fulfilled 200 \<and> ok 200"
    by (simp add: found_def ok_def)
  from substitution_miss_is_noop [of "''version''" "''latest''" plain_page "''3.9''" found,
      OF h1 h2] h2 h3 f
  show ?thesis by (simp add: o)
qed

text \<open>
  C10. When the type is neither \<open>language\<close> nor \<open>version\<close>, no branch assigns the
  substituted path: it stays undefined, and the address is \<open>file://\<close> or the origin followed
  by the text \<open>undefined\<close>. The function still returns an address: on a local page
  \<open>file://undefined\<close>; on a served page it probes the origin followed by \<open>undefined\<close>,
  returns that address when the probe succeeds, and otherwise
  \<open><asset-dir>/<current language>/<current version>/index.html\<close>.
\<close>

theorem unknown_type_leaves_path_undefined:
  assumes "type \<noteq> ''language''" and "type \<noteq> ''version''"
  shows "targetPath pg type v = None
       \<and> (IS_LOCAL pg \<longrightarrow> getTargetUrl pg fetch type v = ([], Inr ''file://undefined''))
       \<and> (\<not> IS_LOCAL pg \<longrightarrow>
            (case fetch (origin pg @ ''undefined'') of
               Fulfilled status \<Rightarrow>
                 if 200 \<le> status \<and> status \<le> 299
                 then getTargetUrl pg fetch type v
                        = ([Fetch_HEAD (origin pg @ ''undefined'')], Inr (origin pg @ ''undefined''))
                 else getTargetUrl pg fetch type v
                        = ([Fetch_HEAD (origin pg @ ''undefined''),
                            Console_warn (origin pg @ ''undefined'')],
                           Inr (fallback_shape (FLYOUT_JS_DIR pg)
                                  (CURRENT_LANGUAGE pg) (CURRENT_VERSION pg)))
             | Rejected e \<Rightarrow>
                 getTargetUrl pg fetch type v
                   = ([Fetch_HEAD (origin pg @ ''undefined''), Console_error e],
                      Inr (fallback_shape (FLYOUT_JS_DIR pg)
                             (CURRENT_LANGUAGE pg) (CURRENT_VERSION pg)))))"
proof -
  from assms have p: "targetPath pg type v = None" by (simp add: targetPath_def)
  then have u: "targetUrl pg type v
      = (if IS_LOCAL pg then ''file://undefined'' else origin pg @ ''undefined'')"
    by (simp add: targetUrl_def interpolate_def SERVER_ROOT_def)
  from assms have fb: "fallbackUrl pg type v
      = fallback_shape (FLYOUT_JS_DIR pg) (CURRENT_LANGUAGE pg) (CURRENT_VERSION pg)"
    by (simp add: fallbackUrl_def fallback_shape_def)
  have l: "IS_LOCAL pg \<longrightarrow> getTargetUrl pg fetch type v = ([], Inr ''file://undefined'')"
    using u by (simp add: getTargetUrl_local)
  have s: "case fetch (origin pg @ ''undefined'') of
               Fulfilled status \<Rightarrow>
                 if 200 \<le> status \<and> status \<le> 299
                 then getTargetUrl pg fetch type v
                        = ([Fetch_HEAD (origin pg @ ''undefined'')], Inr (origin pg @ ''undefined''))
                 else getTargetUrl pg fetch type v
                        = ([Fetch_HEAD (origin pg @ ''undefined''),
                            Console_warn (origin pg @ ''undefined'')],
                           Inr (fallback_shape (FLYOUT_JS_DIR pg)
                                  (CURRENT_LANGUAGE pg) (CURRENT_VERSION pg)))
             | Rejected e \<Rightarrow>
                 getTargetUrl pg fetch type v
                   = ([Fetch_HEAD (origin pg @ ''undefined''), Console_error e],
                      Inr (fallback_shape (FLYOUT_JS_DIR pg)
                             (CURRENT_LANGUAGE pg) (CURRENT_VERSION pg)))"
    if served: "\<not> IS_LOCAL pg"
  proof -
    from served have u': "targetUrl pg type v = origin pg @ ''undefined''" using u by simp
    show ?thesis
    proof (cases "fetch (origin pg @ ''undefined'')")
      case (Fulfilled status)
      then have f: "fetch (targetUrl pg type v) = Fulfilled status" by (simp only: u')
      show ?thesis
      proof (cases "ok status")
        case True
        from getTargetUrl_ok [of pg fetch type v status, OF served f True] True Fulfilled
        show ?thesis by (simp add: u' ok_def)
      next
        case False
        from getTargetUrl_not_ok [of pg fetch type v status, OF served f False] False Fulfilled
        show ?thesis by (simp add: u' fb ok_def)
      qed
    next
      case (Rejected e)
      then have f: "fetch (targetUrl pg type v) = Rejected e" by (simp only: u')
      from getTargetUrl_rejected [of pg fetch type v e, OF served f] Rejected
      show ?thesis by (simp add: u' fb)
    qed
  qed
  from p l s show ?thesis by blast
qed

theorem unknown_type_leaves_path_undefined_witness:
  "''theme'' \<noteq> ''language'' \<and> ''theme'' \<noteq> ''version''
   \<and> targetPath example_page ''theme'' ''dark'' = None
   \<and> getTargetUrl example_page found ''theme'' ''dark''
       = ([Fetch_HEAD ''https://docs.example.orgundefined''],
          Inr ''https://docs.example.orgundefined'')
   \<and> getTargetUrl example_page not_found ''theme'' ''dark''
       = ([Fetch_HEAD ''https://docs.example.orgundefined'',
           Console_warn ''https://docs.example.orgundefined''],
          Inr ''https://docs.example.org/flyout/en-us/latest/index.html'')
   \<and> getTargetUrl local_page found ''theme'' ''dark'' = ([], Inr ''file://undefined'')"
proof -
  have h1: "''theme'' \<noteq> ''language''" and h2: "''theme'' \<noteq> ''version''" by simp_all
  have s: "\<not> IS_LOCAL example_page"
    by (simp add: IS_LOCAL_def is_file_uri_def startsWith_def example_page_def)
  have l: "IS_LOCAL local_page"
    by (simp add: IS_LOCAL_def is_file_uri_def startsWith_def local_page_def)
  have o: "origin example_page = ''https://docs.example.org''"
    "fallback_shape (FLYOUT_JS_DIR example_page) (CURRENT_LANGUAGE example_page)
       (CURRENT_VERSION example_page) = ''https://docs.example.org/flyout/en-us/latest/index.html''"
    by (simp_all add: fallback_shape_def FLYOUT_JS_DIR_def substring0_def example_page_def)
  from unknown_type_leaves_path_undefined [OF h1 h2, of example_page "''dark''" found]
    unknown_type_leaves_path_undefined [OF h1 h2, of example_page "''dark''" not_found]
    unknown_type_leaves_path_undefined [OF h1 h2, of local_page "''dark''" found]
    s l
  show ?thesis by (simp add: o found_def not_found_def)
qed

section \<open>Properties of createFlyout\<close>

text \<open>The markup that the source prints is the markup of the rows.\<close>

lemma languageOptions_rows: "languageOptions pg = concat (map html (language_rows pg))"
  unfolding languageOptions_def language_rows_def map_map
  by (rule arg_cong [where f = concat], rule map_cong [OF refl]) (auto simp: option_row_def)

lemma versionOptions_rows: "versionOptions pg = concat (map html (version_rows pg))"
  unfolding versionOptions_def version_rows_def map_map
  by (rule arg_cong [where f = concat], rule map_cong [OF refl]) (auto simp: option_row_def)

lemma sortedProjects_rows: "sortedProjects pg = concat (map html (project_rows pg))"
  unfolding sortedProjects_def project_rows_def map_map
  by (rule arg_cong [where f = concat], rule map_cong [OF refl]) (auto simp: project_row_def)

lemma option_rows_entries:
  "map (\<lambda>r. (option_value r, option_text r))
       (map (option_row current) (filter (\<lambda>e. fst e \<noteq> ''newline'') entries))
     = map (\<lambda>(code, name). (code, code @ '' : '' @ name))
         (filter (\<lambda>e. fst e \<noteq> ''newline'') entries)"
  by (induction entries) (auto simp: option_row_def)

lemma option_rows_all:
  "r \<in> set (map (option_row current) (filter (\<lambda>e. fst e \<noteq> ''newline'') entries))
     \<Longrightarrow> is_option r \<and> option_value r \<noteq> ''newline''
         \<and> (option_selected r \<longleftrightarrow> option_value r = current)"
  by (auto simp: option_row_def)

lemma project_rows_links:
  "map (\<lambda>r. (link_label r, link_href r)) (filter is_link (map project_row entries))
     = filter (\<lambda>e. fst e \<noteq> ''newline'') entries"
  by (induction entries) (auto simp: project_row_def split: if_splits)

lemma project_rows_all:
  "r \<in> set (map project_row entries)
     \<Longrightarrow> \<not> is_option r \<and> (is_link r \<longrightarrow> link_label r \<noteq> ''newline'')"
  by (auto simp: project_row_def split: if_splits)

lemma project_rows_breaks:
  "map (\<lambda>r. r = NewlineRow) (map project_row entries) = map (\<lambda>e. fst e = ''newline'') entries"
  by (induction entries) (auto simp: project_row_def split: if_splits)

text \<open>
  C6. For every configuration: the markup of the three lists is the markup of the rows
  below. Every row of the two select controls is an option whose value is not
  \<open>newline\<close>, and it is marked selected exactly when its value is the current language,
  or the current version. No project row is an option, and no link has the label
  \<open>newline\<close>. The options are the entries of the configuration without the sentinels, in
  their order; the links are the project entries without the sentinels, in their order;
  and a project row is the empty line-break row exactly where the entry is a sentinel.
\<close>

theorem createFlyout_rows_skip_sentinels:
  "languageOptions pg = concat (map html (language_rows pg))
   \<and> versionOptions pg = concat (map html (version_rows pg))
   \<and> sortedProjects pg = concat (map html (project_rows pg))
   \<and> (\<forall>r \<in> set (language_rows pg). is_option r \<and> option_value r \<noteq> ''newline''
          \<and> (option_selected r \<longleftrightarrow> option_value r = CURRENT_LANGUAGE pg))
   \<and> (\<forall>r \<in> set (version_rows pg). is_option r \<and> option_value r \<noteq> ''newline''
          \<and> (option_selected r \<longleftrightarrow> option_value r = CURRENT_VERSION pg))
   \<and> (\<forall>r \<in> set (project_rows pg). \<not> is_option r \<and> (is_link r \<longrightarrow> link_label r \<noteq> ''newline''))
   \<and> map (\<lambda>r. (option_value r, option_text r)) (language_rows pg)
        = map (\<lambda>(code, name). (code, code @ '' : '' @ name))
            (filter (\<lambda>e. fst e \<noteq> ''newline'') (CONFIG_LANGUAGES pg))
   \<and> map (\<lambda>r. (option_value r, option_text r)) (version_rows pg)
        = map (\<lambda>(code, name). (code, code @ '' : '' @ name))
            (filter (\<lambda>e. fst e \<noteq> ''newline'') (CONFIG_VERSIONS pg))
   \<and> map (\<lambda>r. (link_label r, link_href r)) (filter is_link (project_rows pg))
        = filter (\<lambda>e. fst e \<noteq> ''newline'') (CONFIG_PROJECTS pg)
   \<and> map (\<lambda>r. r = NewlineRow) (project_rows pg)
        = map (\<lambda>e. fst e = ''newline'') (CONFIG_PROJECTS pg)"
proof -
  have a: "\<forall>r \<in> set (language_rows pg). is_option r \<and> option_value r \<noteq> ''newline''
          \<and> (option_selected r \<longleftrightarrow> option_value r = CURRENT_LANGUAGE pg)"
    unfolding language_rows_def using option_rows_all by blast
  have b: "\<forall>r \<in> set (version_rows pg). is_option r \<and> option_value r \<noteq> ''newline''
          \<and> (option_selected r \<longleftrightarrow> option_value r = CURRENT_VERSION pg)"
    unfolding version_rows_def using option_rows_all by blast
  have c: "\<forall>r \<in> set (project_rows pg). \<not> is_option r \<and> (is_link r \<longrightarrow> link_label r \<noteq> ''newline'')"
    unfolding project_rows_def using project_rows_all by blast
  have d: "map (\<lambda>r. (option_value r, option_text r)) (language_rows pg)
        = map (\<lambda>(code, name). (code, code @ '' : '' @ name))
            (filter (\<lambda>e. fst e \<noteq> ''newline'') (CONFIG_LANGUAGES pg))"
    unfolding language_rows_def by (rule option_rows_entries)
  have e: "map (\<lambda>r. (option_value r, option_text r)) (version_rows pg)
        = map (\<lambda>(code, name). (code, code @ '' : '' @ name))
            (filter (\<lambda>e. fst e \<noteq> ''newline'') (CONFIG_VERSIONS pg))"
    unfolding version_rows_def by (rule option_rows_entries)
  have f: "map (\<lambda>r. (link_label r, link_href r)) (filter is_link (project_rows pg))
        = filter (\<lambda>e. fst e \<noteq> ''newline'') (CONFIG_PROJECTS pg)"
    unfolding project_rows_def by (rule project_rows_links)
  have g: "map (\<lambda>r. r = NewlineRow) (project_rows pg)
        = map (\<lambda>e. fst e = ''newline'') (CONFIG_PROJECTS pg)"
    unfolding project_rows_def by (rule project_rows_breaks)
  from languageOptions_rows [of pg] versionOptions_rows [of pg] sortedProjects_rows [of pg]
    a b c d e f g
  show ?thesis by blast
qed

text \<open>
  The example page: two language options out of three entries, the duplicated version
  3.9 as two options, and a line break between the two project links.
\<close>

theorem createFlyout_rows_skip_sentinels_witness:
  "language_rows example_page
     = [OptionRow ''en-us'' True ''en-us : English'', OptionRow ''zh-cn'' False ''zh-cn : Chinese'']
   \<and> map option_value (version_rows example_page) = [''master'', ''latest'', ''3.9'', ''3.9'', ''3.8'']
   \<and> map option_selected (version_rows example_page) = [False, True, False, False, False]
   \<and> project_rows example_page
       = [LinkRow ''https://projects.localizethedocs.org'' ''Index'', NewlineRow,
          LinkRow ''https://github.com/localizethedocs/demo-docs-l10n'' ''GitHub'']
   \<and> map (\<lambda>r. (link_label r, link_href r)) (filter is_link (project_rows example_page))
       = [(''Index'', ''https://projects.localizethedocs.org''),
          (''GitHub'', ''https://github.com/localizethedocs/demo-docs-l10n'')]"
proof -
  have l: "language_rows example_page
     = [OptionRow ''en-us'' True ''en-us : English'', OptionRow ''zh-cn'' False ''zh-cn : Chinese'']"
    by (simp add: language_rows_def option_row_def example_page_def)
  have v: "map option_value (version_rows example_page) = [''master'', ''latest'', ''3.9'', ''3.9'', ''3.8'']"
    "map option_selected (version_rows example_page) = [False, True, False, False, False]"
    by (simp_all add: version_rows_def option_row_def example_page_def)
  have p: "project_rows example_page
       = [LinkRow ''https://projects.localizethedocs.org'' ''Index'', NewlineRow,
          LinkRow ''https://github.com/localizethedocs/demo-docs-l10n'' ''GitHub'']"
    by (simp add: project_rows_def project_row_def example_page_def)
  have c: "filter (\<lambda>e. fst e \<noteq> ''newline'') (CONFIG_PROJECTS example_page)
       = [(''Index'', ''https://projects.localizethedocs.org''),
          (''GitHub'', ''https://github.com/localizethedocs/demo-docs-l10n'')]"
    by (simp add: example_page_def)
  from createFlyout_rows_skip_sentinels [of example_page] l v p
  show ?thesis by (simp only: c)
qed

text \<open>
  What holds in every state the widget can be in: the one divider carries the closed
  marker exactly when the content panel does.
\<close>

lemma reachable_invariant:
  "reachable w \<Longrightarrow> dividers_closed w = [content_closed w]"
proof (induction rule: reachable.induct)
  case reachable_initial
  show ?case by (simp add: initial_def)
next
  case (reachable_click w t)
  then show ?case
    by (cases t) (auto simp: label_click_def icon_click_def document_click_def Let_def)
qed

lemma reachable_expanded: "reachable (click OnLabel initial)"
  by (rule reachable_click [OF reachable_initial])

lemma reachable_icon_only: "reachable (click OnIcon (click OnLabel initial))"
  by (rule reachable_click [OF reachable_expanded])

text \<open>
  C7. As the claim states it, a hidden label does not come with a collapsed content
  panel after every event. The listener on the label toggles the content panel whatever
  the state of the label: after a click on the icon and then one on the label, the label
  is hidden and the content panel is expanded. (The style sheet does not display a
  hidden label; the listener itself has no such condition.)
\<close>

theorem hidden_label_click_expands_content:
  "reachable (click OnLabel (click OnIcon initial))
   \<and> \<not> labelVisible (click OnIcon initial)
   \<and> \<not> contentExpanded (click OnIcon initial)
   \<and> \<not> labelVisible (click OnLabel (click OnIcon initial))
   \<and> contentExpanded (click OnLabel (click OnIcon initial))"
proof -
  have "reachable (click OnLabel (click OnIcon initial))"
    by (rule reachable_click [OF reachable_click [OF reachable_initial]])
  then show ?thesis
    by (simp add: labelVisible_def contentExpanded_def label_click_def icon_click_def
        initial_def Let_def)
qed

text \<open>
  C7, amended. In every reachable state with the label shown, a click on the icon hides
  the label and closes the content panel and the divider; a second click on the icon
  shows the label again and leaves the content panel closed. After every click on the
  icon and after every click outside the widget, a hidden label comes with a collapsed
  content panel; and every click other than one on the label while the label is hidden
  keeps that property when it held before the click.
\<close>

theorem icon_click_collapses_content:
  assumes "reachable w"
  shows "(labelVisible w \<longrightarrow>
            \<not> labelVisible (click OnIcon w) \<and> \<not> contentExpanded (click OnIcon w)
          \<and> dividers_closed (click OnIcon w) = [True]
          \<and> labelVisible (click OnIcon (click OnIcon w))
          \<and> \<not> contentExpanded (click OnIcon (click OnIcon w)))
       \<and> (\<not> labelVisible (click OnIcon w) \<longrightarrow> \<not> contentExpanded (click OnIcon w))
       \<and> \<not> contentExpanded (click OutsideFlyout w)
       \<and> (\<forall>t. (t = OnLabel \<longrightarrow> labelVisible w)
              \<longrightarrow> (\<not> labelVisible w \<longrightarrow> \<not> contentExpanded w)
              \<longrightarrow> (\<not> labelVisible (click t w) \<longrightarrow> \<not> contentExpanded (click t w)))"
proof -
  from reachable_invariant [OF assms] have d: "dividers_closed w = [content_closed w]" .
  have a: "labelVisible w \<longrightarrow>
            \<not> labelVisible (click OnIcon w) \<and> \<not> contentExpanded (click OnIcon w)
          \<and> dividers_closed (click OnIcon w) = [True]
          \<and> labelVisible (click OnIcon (click OnIcon w))
          \<and> \<not> contentExpanded (click OnIcon (click OnIcon w))"
    using d by (auto simp: labelVisible_def contentExpanded_def icon_click_def Let_def)
  have b: "\<not> labelVisible (click OnIcon w) \<longrightarrow> \<not> contentExpanded (click OnIcon w)"
    by (auto simp: labelVisible_def contentExpanded_def icon_click_def Let_def)
  have c: "\<not> contentExpanded (click OutsideFlyout w)"
    by (simp add: contentExpanded_def document_click_def)
  have e: "(t = OnLabel \<longrightarrow> labelVisible w)
              \<longrightarrow> (\<not> labelVisible w \<longrightarrow> \<not> contentExpanded w)
              \<longrightarrow> (\<not> labelVisible (click t w) \<longrightarrow> \<not> contentExpanded (click t w))" for t
    by (cases t)
      (auto simp: labelVisible_def contentExpanded_def label_click_def icon_click_def
        document_click_def Let_def)
  from a b c e show ?thesis by blast
qed

text \<open>
  From the expanded widget: two clicks on the icon; and from the widget with the icon
  only, a click outside.
\<close>

theorem icon_click_collapses_content_witness:
  "reachable (click OnLabel initial)
   \<and> labelVisible (click OnLabel initial) \<and> contentExpanded (click OnLabel initial)
   \<and> \<not> labelVisible (click OnIcon (click OnLabel initial))
   \<and> \<not> contentExpanded (click OnIcon (click OnLabel initial))
   \<and> labelVisible (click OnIcon (click OnIcon (click OnLabel initial)))
   \<and> \<not> contentExpanded (click OnIcon (click OnIcon (click OnLabel initial)))
   \<and> reachable (click OnIcon (click OnLabel initial))
   \<and> OutsideFlyout \<noteq> OnLabel
   \<and> \<not> labelVisible (click OutsideFlyout (click OnIcon (click OnLabel initial)))
   \<and> \<not> contentExpanded (click OutsideFlyout (click OnIcon (click OnLabel initial)))"
proof -
  have v: "labelVisible (click OnLabel initial)" "contentExpanded (click OnLabel initial)"
    by (simp_all add: labelVisible_def contentExpanded_def label_click_def initial_def)
  have u: "\<not> labelVisible (click OutsideFlyout (click OnIcon (click OnLabel initial)))"
    by (simp add: labelVisible_def document_click_def icon_click_def label_click_def
        initial_def Let_def)
  from icon_click_collapses_content [OF reachable_expanded]
    icon_click_collapses_content [OF reachable_icon_only]
    reachable_expanded reachable_icon_only v u
  show ?thesis by simp
qed

text \<open>
  C8. In every reachable state, a click outside the widget collapses the content panel
  and leaves the label as it is; a second such click changes nothing more; and when the
  content panel is already collapsed the click leaves the whole state as it was.
\<close>

theorem outside_click_idempotent:
  assumes "reachable w"
  shows "\<not> contentExpanded (click OutsideFlyout w)
       \<and> labelVisible (click OutsideFlyout w) = labelVisible w
       \<and> click OutsideFlyout (click OutsideFlyout w) = click OutsideFlyout w
       \<and> (\<not> contentExpanded w \<longrightarrow> click OutsideFlyout w = w)"
  using reachable_invariant [OF assms]
  by (auto simp: labelVisible_def contentExpanded_def document_click_def)

theorem outside_click_idempotent_witness:
  "reachable (click OnLabel initial) \<and> reachable initial
   \<and> contentExpanded (click OnLabel initial)
   \<and> \<not> contentExpanded (click OutsideFlyout (click OnLabel initial))
   \<and> click OutsideFlyout (click OutsideFlyout (click OnLabel initial))
       = click OutsideFlyout (click OnLabel initial)
   \<and> \<not> contentExpanded initial
   \<and> click OutsideFlyout initial = initial"
proof -
  have v: "contentExpanded (click OnLabel initial)" "\<not> contentExpanded initial"
    by (simp_all add: contentExpanded_def label_click_def initial_def)
  from outside_click_idempotent [OF reachable_expanded]
    outside_click_idempotent [OF reachable_initial] reachable_expanded reachable_initial v
  show ?thesis by simp
qed

text \<open>
  C9. In every reachable state the divider carries the closed marker exactly when the
  content panel does: the divider is shown if and only if the content is expanded.
\<close>

theorem divider_mirrors_content:
  assumes "reachable w"
  shows "dividers_closed w = [content_closed w]
       \<and> (\<forall>d \<in> set (dividers_closed w). (\<not> d) = contentExpanded w)"
proof -
  from reachable_invariant [OF assms] have d: "dividers_closed w = [content_closed w]" .
  have "\<forall>d \<in> set [content_closed w]. (\<not> d) = contentExpanded w"
    by (simp add: contentExpanded_def)
  with d show ?thesis by simp
qed

theorem divider_mirrors_content_witness:
  "reachable (click OnLabel initial)
   \<and> dividers_closed (click OnLabel initial) = [False]
   \<and> contentExpanded (click OnLabel initial)
   \<and> dividers_closed initial = [True]
   \<and> \<not> contentExpanded initial"
proof -
  have v: "\<not> content_closed (click OnLabel initial)" "content_closed initial"
    by (simp_all add: label_click_def initial_def)
  from divider_mirrors_content [OF reachable_expanded]
  have "dividers_closed (click OnLabel initial) = [content_closed (click OnLabel initial)]" ..
  with v(1) have a: "dividers_closed (click OnLabel initial) = [False]" by simp
  from divider_mirrors_content [OF reachable_initial]
  have "dividers_closed initial = [content_closed initial]" ..
  with v(2) have b: "dividers_closed initial = [True]" by simp
  from a b v reachable_expanded show ?thesis by (simp add: contentExpanded_def)
qed

end
